theory Spec2Isabelle
  imports Main "HOL-Library.Signed_Division" "HOL-Library.Sublist"
begin

section \<open>E-commerce listing: catalog, filter evaluator, hero carousel\<close>

text \<open>
  \<^verbatim>\<open>EcommerceListing.tsx\<close>. A product is an object literal; the fields \<^verbatim>\<open>rating\<close>
  (a fraction) and \<^verbatim>\<open>image\<close> (a glyph) are only rendered and are read by none of the
  functions below, so the record leaves them out. A missing \<^verbatim>\<open>originalPrice\<close> and a
  \<^verbatim>\<open>null\<close> badge are \<open>None\<close>. Numbers are the integers the source writes.
\<close>

record product =
  pid :: int
  pname :: string
  price :: int
  originalPrice :: "int option"
  reviews :: int
  category :: string
  badge :: "string option"

definition products :: "product list" where
  "products =
    [\<lparr>pid = 1, pname = ''Premium Cotton T-Shirt'', price = 45, originalPrice = Some 65,
      reviews = 124, category = ''clothing'', badge = Some ''Sale''\<rparr>,
     \<lparr>pid = 2, pname = ''Leather Crossbody Bag'', price = 120, originalPrice = None,
      reviews = 89, category = ''bags'', badge = Some ''New''\<rparr>,
     \<lparr>pid = 3, pname = ''Classic Sneakers'', price = 85, originalPrice = Some 110,
      reviews = 256, category = ''shoes'', badge = Some ''Popular''\<rparr>,
     \<lparr>pid = 4, pname = ''Summer Hat'', price = 35, originalPrice = None,
      reviews = 67, category = ''accessories'', badge = None\<rparr>,
     \<lparr>pid = 5, pname = ''Denim Jacket'', price = 89, originalPrice = Some 120,
      reviews = 143, category = ''clothing'', badge = Some ''Sale''\<rparr>,
     \<lparr>pid = 6, pname = ''Gold Watch'', price = 299, originalPrice = None,
      reviews = 78, category = ''accessories'', badge = Some ''Premium''\<rparr>]"

text \<open>
  \<^verbatim>\<open>products.filter(product => (selectedCategory === 'all' || product.category ===
  selectedCategory) && product.price >= priceRange[0] && product.price <= priceRange[1])\<close>.
  The catalog is a parameter; the component's state is \<^verbatim>\<open>selectedCategory\<close> and the
  two-element array \<^verbatim>\<open>priceRange\<close> (a pair here). The component has no label state.
\<close>

definition filteredProducts :: "product list \<Rightarrow> string \<Rightarrow> int \<times> int \<Rightarrow> product list" where
  "filteredProducts ps selectedCategory priceRange =
     filter (\<lambda>product.
        (selectedCategory = ''all'' \<or> category product = selectedCategory) \<and>
        price product \<ge> fst priceRange \<and> price product \<le> snd priceRange) ps"

text \<open>The initial state of the listing: \<^verbatim>\<open>useState('all')\<close>, \<^verbatim>\<open>useState([0, 500])\<close>.\<close>

definition initialPriceRange :: "int \<times> int" where
  "initialPriceRange = (0, 500)"

text \<open>The two sample products that carry the badge \<^verbatim>\<open>'Sale'\<close> (display only).\<close>

definition saleBadged :: "product list \<Rightarrow> product list" where
  "saleBadged ps = filter (\<lambda>product. badge product = Some ''Sale'') ps"

text \<open>
  The carousel. \<^verbatim>\<open>heroSlides\<close> has three entries (the glyph field is left out); the
  count \<open>n\<close> is \<^verbatim>\<open>heroSlides.length\<close> and is a parameter of the operations. JavaScript's
  \<^verbatim>\<open>%\<close> takes the sign of the dividend, which is \<open>smod\<close>. For \<open>n = 0\<close> the source
  would compute \<^verbatim>\<open>NaN\<close>; the model covers \<open>n \<ge> 1\<close> only and every statement says so.
\<close>

record slide =
  title :: string
  subtitle :: string
  gradient :: string

definition heroSlides :: "slide list" where
  "heroSlides =
    [\<lparr>title = ''New Arrivals'', subtitle = ''Spring Collection 2024'',
      gradient = ''from-coral to-amber''\<rparr>,
     \<lparr>title = ''Summer Sale'', subtitle = ''Up to 70% Off'',
      gradient = ''from-amber to-teal''\<rparr>,
     \<lparr>title = ''Premium Quality'', subtitle = ''Crafted with Care'',
      gradient = ''from-teal to-coral''\<rparr>]"

definition nextSlide :: "int \<Rightarrow> int \<Rightarrow> int" where
  "nextSlide n prev = (prev + 1) smod n"

definition prevSlide :: "int \<Rightarrow> int \<Rightarrow> int" where
  "prevSlide n prev = (prev - 1 + n) smod n"

text \<open>
  The indicator buttons call \<^verbatim>\<open>setCurrentSlide(index)\<close>, a plain assignment; one button
  is rendered per slide, so the indices offered are \<open>0 .. n - 1\<close>.
\<close>

datatype carousel_op = NextSlide | PrevSlide | SetCurrentSlide int

fun carousel_step :: "int \<Rightarrow> carousel_op \<Rightarrow> int \<Rightarrow> int" where
  "carousel_step n NextSlide p = nextSlide n p"
| "carousel_step n PrevSlide p = prevSlide n p"
| "carousel_step n (SetCurrentSlide k) p = k"

definition run_carousel :: "int \<Rightarrow> carousel_op list \<Rightarrow> int \<Rightarrow> int" where
  "run_carousel n ops p = fold (carousel_step n) ops p"

fun in_range_op :: "int \<Rightarrow> carousel_op \<Rightarrow> bool" where
  "in_range_op n (SetCurrentSlide k) = (0 \<le> k \<and> k < n)"
| "in_range_op n _ = True"

section \<open>Restaurant menu: catalog, label toggle, filter evaluator\<close>

text \<open>
  \<^verbatim>\<open>RestaurantMenu.tsx\<close>. A menu item keeps \<^verbatim>\<open>id\<close>, \<^verbatim>\<open>name\<close>, \<^verbatim>\<open>price\<close> (a string in the
  source) and \<^verbatim>\<open>tags\<close>; \<^verbatim>\<open>description\<close> and \<^verbatim>\<open>image\<close> are only rendered. Strings are
  lists of code units; the one non-ASCII unit in a name is written by its code.
\<close>

record menu_item =
  mid :: int
  mname :: string
  mprice :: string
  tags :: "string list"

definition appetizers :: "menu_item list" where
  "appetizers =
    [\<lparr>mid = 1, mname = ''Truffle Arancini'', mprice = ''$18'', tags = [''vegetarian'', ''popular'']\<rparr>,
     \<lparr>mid = 2, mname = ''Seared Scallops'', mprice = ''$24'', tags = [''popular'']\<rparr>,
     \<lparr>mid = 3, mname = ''Spicy Tuna Tartare'', mprice = ''$22'', tags = [''spicy'']\<rparr>]"

definition mains :: "menu_item list" where
  "mains =
    [\<lparr>mid = 4, mname = ''Wagyu Ribeye'', mprice = ''$65'', tags = [''popular'']\<rparr>,
     \<lparr>mid = 5, mname = ''Lobster Risotto'', mprice = ''$38'', tags = [''popular'']\<rparr>,
     \<lparr>mid = 6, mname = ''Vegetarian Wellington'', mprice = ''$28'', tags = [''vegetarian'']\<rparr>]"

definition desserts :: "menu_item list" where
  "desserts =
    [\<lparr>mid = 7, mname = ''Chocolate Souffl'' @ [CHR 0xE9], mprice = ''$16'', tags = [''popular'']\<rparr>,
     \<lparr>mid = 8, mname = ''Lemon Tart'', mprice = ''$14'', tags = [''vegetarian'']\<rparr>]"

definition drinks :: "menu_item list" where
  "drinks =
    [\<lparr>mid = 9, mname = ''Signature Martini'', mprice = ''$18'', tags = [''popular'']\<rparr>,
     \<lparr>mid = 10, mname = ''Spiced Old Fashioned'', mprice = ''$16'', tags = [''spicy'']\<rparr>]"

text \<open>
  \<^verbatim>\<open>menuItems\<close> is an object literal keyed by category: its own properties are a map from
  key to item list.
\<close>

definition menuItems :: "string \<rightharpoonup> menu_item list" where
  "menuItems = map_of
    [(''appetizers'', appetizers), (''mains'', mains),
     (''desserts'', desserts), (''drinks'', drinks)]"

text \<open>
  Reading \<^verbatim>\<open>menuItems[key]\<close> is JavaScript property access on an ordinary object: an own
  property wins; otherwise the prototype chain is searched, and an object literal's
  prototype is \<^verbatim>\<open>Object.prototype\<close>, whose property names are listed here. Only a name
  found nowhere reads as \<^verbatim>\<open>undefined\<close>.
\<close>

definition object_prototype_keys :: "string list" where
  "object_prototype_keys =
    [''constructor'', ''__proto__'', ''hasOwnProperty'', ''isPrototypeOf'',
     ''propertyIsEnumerable'', ''toLocaleString'', ''toString'', ''valueOf'',
     ''__defineGetter__'', ''__defineSetter__'', ''__lookupGetter__'', ''__lookupSetter__'']"

datatype 'a js_lookup = Undefined | OwnValue 'a | InheritedMember

definition get_property :: "(string \<rightharpoonup> 'a) \<Rightarrow> string \<Rightarrow> 'a js_lookup" where
  "get_property obj key =
     (case obj key of
        Some v \<Rightarrow> OwnValue v
      | None \<Rightarrow> if key \<in> set object_prototype_keys then InheritedMember else Undefined)"

datatype error = TypeError

text \<open>
  \<^verbatim>\<open>menuItems[activeCategory]?.filter(item => selectedFilters.length === 0 ||
  selectedFilters.some(filter => item.tags.includes(filter))) || []\<close>.
  The optional chain stops only at \<^verbatim>\<open>undefined\<close>/\<^verbatim>\<open>null\<close>, and then \<^verbatim>\<open>|| []\<close> gives the
  empty list. An inherited member is a function (or, for \<^verbatim>\<open>__proto__\<close>, the prototype
  object); it has no \<^verbatim>\<open>filter\<close> property, so the call of \<^verbatim>\<open>undefined\<close> throws a
  \<^verbatim>\<open>TypeError\<close>. An array is truthy even when empty, so \<^verbatim>\<open>|| []\<close> leaves a filter result
  as it is.
\<close>

definition item_matches :: "string list \<Rightarrow> menu_item \<Rightarrow> bool" where
  "item_matches selectedFilters item =
     (length selectedFilters = 0 \<or>
      list_ex (\<lambda>f. f \<in> set (tags item)) selectedFilters)"

definition filteredItems ::
  "(string \<rightharpoonup> menu_item list) \<Rightarrow> string \<Rightarrow> string list \<Rightarrow> error + menu_item list" where
  "filteredItems menu activeCategory selectedFilters =
     (case get_property menu activeCategory of
        Undefined \<Rightarrow> Inr []
      | InheritedMember \<Rightarrow> Inl TypeError
      | OwnValue items \<Rightarrow> Inr (filter (item_matches selectedFilters) items))"

text \<open>
  \<^verbatim>\<open>toggleFilter\<close>: \<^verbatim>\<open>prev.includes(filterId) ? prev.filter(f => f !== filterId) :
  [...prev, filterId]\<close>.
\<close>

definition toggleFilter :: "string \<Rightarrow> string list \<Rightarrow> string list" where
  "toggleFilter filterId prev =
     (if filterId \<in> set prev then filter (\<lambda>f. f \<noteq> filterId) prev else prev @ [filterId])"

text \<open>
  The menu component's state and events. \<^verbatim>\<open>activeCategory\<close> starts as
  \<^verbatim>\<open>'appetizers'\<close> and \<^verbatim>\<open>selectedFilters\<close> as the empty array. One tab button is rendered
  per entry of \<^verbatim>\<open>categories\<close>, calling \<^verbatim>\<open>setActiveCategory(category.id)\<close>, and one chip
  per entry of \<^verbatim>\<open>filters\<close>, calling \<^verbatim>\<open>toggleFilter(filter.id)\<close>; the component takes no
  props and reads nothing else. An event for an id with no rendered button cannot
  occur and leaves the state as it is. \<open>visibleItems\<close> is \<^verbatim>\<open>filteredItems\<close> as the
  component computes it from its state on every render.
\<close>

definition menuCategoryIds :: "string list" where
  "menuCategoryIds = [''appetizers'', ''mains'', ''desserts'', ''drinks'']"

definition filterIds :: "string list" where
  "filterIds = [''popular'', ''vegetarian'', ''spicy'']"

record menu_state =
  activeCategory :: string
  selectedFilters :: "string list"

definition initialMenu :: menu_state where
  "initialMenu = \<lparr>activeCategory = ''appetizers'', selectedFilters = []\<rparr>"

datatype menu_event = SetActiveCategory string | ToggleFilter string

fun menu_step :: "menu_event \<Rightarrow> menu_state \<Rightarrow> menu_state" where
  "menu_step (SetActiveCategory c) s =
     (if c \<in> set menuCategoryIds then s\<lparr>activeCategory := c\<rparr> else s)"
| "menu_step (ToggleFilter f) s =
     (if f \<in> set filterIds then s\<lparr>selectedFilters := toggleFilter f (selectedFilters s)\<rparr> else s)"

definition run_menu :: "menu_event list \<Rightarrow> menu_state \<Rightarrow> menu_state" where
  "run_menu evs s = fold menu_step evs s"

definition visibleItems :: "menu_state \<Rightarrow> error + menu_item list" where
  "visibleItems s = filteredItems menuItems (activeCategory s) (selectedFilters s)"

section \<open>Signup wizard\<close>

text \<open>
  The signup component (\<^verbatim>\<open>MobileSignup\<close>): the step counter, the password-visibility
  flag and the form data.
\<close>

record form_data =
  name :: string
  email :: string
  password :: string
  interests :: "string list"

record signup =
  currentStep :: int
  showPassword :: bool
  formData :: form_data

definition initialSignup :: signup where
  "initialSignup =
     \<lparr>currentStep = 1, showPassword = False,
      formData = \<lparr>name = [], email = [], password = [], interests = []\<rparr>\<rparr>"

definition nextStep :: "signup \<Rightarrow> signup" where
  "nextStep s = (if currentStep s < 3 then s\<lparr>currentStep := currentStep s + 1\<rparr> else s)"

definition prevStep :: "signup \<Rightarrow> signup" where
  "prevStep s = (if currentStep s > 1 then s\<lparr>currentStep := currentStep s - 1\<rparr> else s)"

definition toggleInterest :: "string \<Rightarrow> signup \<Rightarrow> signup" where
  "toggleInterest interest s =
     s\<lparr>formData := (formData s)\<lparr>interests :=
        (if interest \<in> set (interests (formData s))
         then filter (\<lambda>i. i \<noteq> interest) (interests (formData s))
         else interests (formData s) @ [interest])\<rparr>\<rparr>"

text \<open>\<^verbatim>\<open>updateField\<close> is called with the three literal field names only.\<close>

datatype field = Name | Email | Password

fun updateField :: "field \<Rightarrow> string \<Rightarrow> signup \<Rightarrow> signup" where
  "updateField Name v s = s\<lparr>formData := (formData s)\<lparr>name := v\<rparr>\<rparr>"
| "updateField Email v s = s\<lparr>formData := (formData s)\<lparr>email := v\<rparr>\<rparr>"
| "updateField Password v s = s\<lparr>formData := (formData s)\<lparr>password := v\<rparr>\<rparr>"

text \<open>
  \<^verbatim>\<open>String.prototype.trim\<close> on the code units below 256: tab, line feed, vertical tab,
  form feed, carriage return, space and no-break space are white space.
\<close>

definition is_ws :: "char \<Rightarrow> bool" where
  "is_ws c = (c \<in> set [CHR 0x09, CHR 0x0A, CHR 0x0B, CHR 0x0C, CHR 0x0D, CHR 0x20, CHR 0xA0])"

definition trim :: "string \<Rightarrow> string" where
  "trim s = rev (dropWhile is_ws (rev (dropWhile is_ws s)))"

text \<open>
  The \<^verbatim>\<open>disabled\<close> conditions of the three primary buttons, as written: an empty string
  is falsy.
\<close>

definition nameContinueDisabled :: "form_data \<Rightarrow> bool" where
  "nameContinueDisabled fd = (trim (name fd) = [])"

definition accountContinueDisabled :: "form_data \<Rightarrow> bool" where
  "accountContinueDisabled fd =
     (email fd = [] \<or> password fd = [] \<or> int (length (password fd)) < 6)"

definition signUpDisabled :: "form_data \<Rightarrow> bool" where
  "signUpDisabled fd = (length (interests fd) = 0)"

text \<open>
  The inline hint under the email input, \<^verbatim>\<open>formData.email && formData.email.includes('@')\<close>:
  it only shows a text and gates nothing.
\<close>

definition validEmailHint :: "form_data \<Rightarrow> bool" where
  "validEmailHint fd = (email fd \<noteq> [] \<and> CHR ''@'' \<in> set (email fd))"

text \<open>
  \<open>advance\<close> is a click on the primary button of the rendered step. Steps 1 and 2 render
  a Continue button with \<^verbatim>\<open>onClick={nextStep}\<close>; a disabled button delivers no click.
  Step 3 renders the Sign Up button, whose handler only raises an alert; for any other
  value of the counter nothing is rendered. \<open>retreat\<close> is the Back button, \<^verbatim>\<open>prevStep\<close>.
  The event model below lets edits, toggles and Back arrive at any step, which is more
  than the rendered step offers; an invariant of every such sequence holds of the real ones.
\<close>

definition advance :: "signup \<Rightarrow> signup" where
  "advance s =
     (if currentStep s = 1 then
        (if nameContinueDisabled (formData s) then s else nextStep s)
      else if currentStep s = 2 then
        (if accountContinueDisabled (formData s) then s else nextStep s)
      else s)"

definition retreat :: "signup \<Rightarrow> signup" where
  "retreat s = prevStep s"

datatype wizard_event =
    Continue | Back | Edit field string | ToggleInterest string | ToggleShowPassword

fun wizard_step :: "wizard_event \<Rightarrow> signup \<Rightarrow> signup" where
  "wizard_step Continue s = advance s"
| "wizard_step Back s = retreat s"
| "wizard_step (Edit f v) s = updateField f v s"
| "wizard_step (ToggleInterest i) s = toggleInterest i s"
| "wizard_step ToggleShowPassword s = s\<lparr>showPassword := \<not> showPassword s\<rparr>"

definition run_wizard :: "wizard_event list \<Rightarrow> signup \<Rightarrow> signup" where
  "run_wizard evs s = fold wizard_step evs s"

section \<open>The facets as the specification words them\<close>

text \<open>
  Second definitions, following the specification's sentences, against which the
  evaluators above are compared: the category facet with its \<^verbatim>\<open>"all"\<close> sentinel, the
  price range facet and the ANY-match label facet. \<open>menu_catalog\<close> is the menu as one
  list of items in source order, each with the key it is stored under, and
  \<open>spec_menu_evaluator\<close> is the specification's evaluator on such a list.
\<close>

definition spec_category_facet :: "string \<Rightarrow> string \<Rightarrow> bool" where
  "spec_category_facet selectedCategory itemCategory =
     (selectedCategory = ''all'' \<or> itemCategory = selectedCategory)"

definition spec_range_facet :: "int \<times> int \<Rightarrow> int \<Rightarrow> bool" where
  "spec_range_facet priceRange p = (fst priceRange \<le> p \<and> p \<le> snd priceRange)"

definition spec_label_facet :: "string list \<Rightarrow> string list \<Rightarrow> bool" where
  "spec_label_facet selectedLabels labels =
     (set selectedLabels = {} \<or> set labels \<inter> set selectedLabels \<noteq> {})"

definition menu_catalog :: "(string \<times> menu_item) list" where
  "menu_catalog =
     map (Pair ''appetizers'') appetizers @ map (Pair ''mains'') mains @
     map (Pair ''desserts'') desserts @ map (Pair ''drinks'') drinks"

text \<open>
  The keyed menu object as one list: the items of each key, in the order of the given
  keys, each paired with its key.
\<close>

definition catalog_of :: "string list \<Rightarrow> (string \<rightharpoonup> menu_item list) \<Rightarrow> (string \<times> menu_item) list" where
  "catalog_of keys menu =
     concat (map (\<lambda>k. case menu k of None \<Rightarrow> [] | Some items \<Rightarrow> map (Pair k) items) keys)"

definition spec_menu_evaluator ::
  "string \<Rightarrow> string list \<Rightarrow> (string \<times> menu_item) list \<Rightarrow> menu_item list" where
  "spec_menu_evaluator selectedCategory selectedLabels catalog =
     map snd (filter (\<lambda>entry. spec_category_facet selectedCategory (fst entry) \<and>
                               spec_label_facet selectedLabels (tags (snd entry))) catalog)"

text \<open>
  The wizard step validator of the specification: the trimmed name is non-empty at the
  name step; the email contains \<^verbatim>\<open>"@"\<close> and the password has at least 6 characters at the
  account step; the selected interests are non-empty at the interests step.
\<close>

definition spec_step_valid :: "int \<Rightarrow> form_data \<Rightarrow> bool" where
  "spec_step_valid step fd =
     (if step = 1 then trim (name fd) \<noteq> []
      else if step = 2 then CHR ''@'' \<in> set (email fd) \<and> 6 \<le> length (password fd)
      else if step = 3 then interests fd \<noteq> []
      else True)"

text \<open>A form at the account step, with the given email and password.\<close>

definition janeAccount :: "string \<Rightarrow> string \<Rightarrow> signup" where
  "janeAccount mail pw =
     \<lparr>currentStep = 2, showPassword = False,
      formData = \<lparr>name = ''Jane Doe'', email = mail, password = pw, interests = []\<rparr>\<rparr>"

section \<open>Cursor controller: carousel and wizard positions\<close>

subsection \<open>Arithmetic of the carousel operations\<close>

lemma smod_nonneg: "0 \<le> a \<Longrightarrow> (a::int) smod n = a mod \<bar>n\<bar>"
  by (cases "a = 0") (simp_all add: smod_int_alt_def)

lemma nextSlide_mod: "0 \<le> p \<Longrightarrow> 0 < n \<Longrightarrow> nextSlide n p = (p + 1) mod n"
  by (simp add: nextSlide_def smod_nonneg)

lemma prevSlide_mod: "0 \<le> p \<Longrightarrow> 0 < n \<Longrightarrow> prevSlide n p = (p - 1 + n) mod n"
  by (simp add: prevSlide_def smod_nonneg)

lemma nextSlide_range: "0 \<le> p \<Longrightarrow> 0 < n \<Longrightarrow> 0 \<le> nextSlide n p \<and> nextSlide n p < n"
  by (simp add: nextSlide_mod)

lemma prevSlide_range: "0 \<le> p \<Longrightarrow> 0 < n \<Longrightarrow> 0 \<le> prevSlide n p \<and> prevSlide n p < n"
  by (simp add: prevSlide_mod)

lemma nextSlide_funpow:
  "0 \<le> p \<Longrightarrow> p < n \<Longrightarrow> (nextSlide n ^^ k) p = (p + int k) mod n"
proof (induction k)
  case 0
  then show ?case by simp
next
  case (Suc k)
  have "0 \<le> (p + int k) mod n" using Suc.prems by simp
  then have "nextSlide n ((p + int k) mod n) = ((p + int k) mod n + 1) mod n"
    using Suc.prems by (simp add: nextSlide_mod)
  also have "\<dots> = (p + int k + 1) mod n"
    by (rule mod_add_left_eq)
  also have "\<dots> = (p + int (Suc k)) mod n"
    by (simp add: add_ac)
  finally show ?case using Suc by simp
qed

lemma prev_next: 
  assumes "0 \<le> p" "p < n"
  shows "prevSlide n (nextSlide n p) = p"
proof (cases "p + 1 < n")
  case True
  then have "nextSlide n p = p + 1" using assms by (simp add: nextSlide_mod)
  then show ?thesis using assms by (simp add: prevSlide_mod)
next
  case False
  then have pn: "p = n - 1" using assms by simp
  then have "nextSlide n p = 0" using assms by (simp add: nextSlide_mod)
  then show ?thesis using assms pn by (simp add: prevSlide_mod zmod_minus1)
qed

lemma next_prev: 
  assumes "0 \<le> p" "p < n"
  shows "nextSlide n (prevSlide n p) = p"
proof (cases "p = 0")
  case True
  then have "prevSlide n p = n - 1" using assms by (simp add: prevSlide_mod zmod_minus1)
  then show ?thesis using assms True by (simp add: nextSlide_mod)
next
  case False
  then have "prevSlide n p = p - 1" using assms by (simp add: prevSlide_mod)
  then show ?thesis using assms False by (simp add: nextSlide_mod)
qed

lemma carousel_step_range:
  "0 < n \<Longrightarrow> in_range_op n c \<Longrightarrow> 0 \<le> p \<and> p < n \<Longrightarrow>
     0 \<le> carousel_step n c p \<and> carousel_step n c p < n"
  by (cases c) (simp_all add: nextSlide_range prevSlide_range)

lemma run_carousel_range:
  "0 < n \<Longrightarrow> list_all (in_range_op n) ops \<Longrightarrow> 0 \<le> p \<and> p < n \<Longrightarrow>
     0 \<le> run_carousel n ops p \<and> run_carousel n ops p < n"
  unfolding run_carousel_def
proof (induction ops arbitrary: p)
  case Nil
  then show ?case by simp
next
  case (Cons c cs)
  from Cons.prems have "0 \<le> carousel_step n c p \<and> carousel_step n c p < n"
    by (intro carousel_step_range) simp_all
  with Cons show ?case by simp
qed

lemma currentStep_updateField: "currentStep (updateField f v s) = currentStep s"
  by (cases f) simp_all

lemma wizard_step_range:
  "1 \<le> currentStep s \<and> currentStep s \<le> 3 \<Longrightarrow>
     1 \<le> currentStep (wizard_step e s) \<and> currentStep (wizard_step e s) \<le> 3"
  by (cases e)
     (auto simp: advance_def retreat_def nextStep_def prevStep_def toggleInterest_def
        currentStep_updateField)

lemma run_wizard_range:
  "1 \<le> currentStep s \<and> currentStep s \<le> 3 \<Longrightarrow>
     1 \<le> currentStep (run_wizard evs s) \<and> currentStep (run_wizard evs s) \<le> 3"
  unfolding run_wizard_def
proof (induction evs arbitrary: s)
  case Nil
  then show ?case by simp
next
  case (Cons e es)
  from Cons.prems have "1 \<le> currentStep (wizard_step e s) \<and> currentStep (wizard_step e s) \<le> 3"
    by (rule wizard_step_range)
  then show ?case using Cons.IH by simp
qed


text \<open>
  Claim C4. The cursor bound is an invariant. From the initial position 0, every sequence
  of \<open>nextSlide\<close>, \<open>prevSlide\<close> and in-range \<open>setCurrentSlide k\<close> keeps the carousel
  position in \<open>[0, n - 1]\<close> for the slide count \<open>n \<ge> 1\<close>; from the initial step 1,
  every sequence of wizard events (Continue, Back, edits and toggles) keeps the step in
  \<open>[1, 3]\<close>, three being the wizard's fixed number of steps.
\<close>

theorem cursor_bound_invariant:
  assumes "1 \<le> n" and "list_all (in_range_op n) ops"
  shows "0 \<le> run_carousel n ops 0 \<and> run_carousel n ops 0 < n \<and>
         1 \<le> currentStep (run_wizard evs initialSignup) \<and>
         currentStep (run_wizard evs initialSignup) \<le> 3"
proof -
  have c: "0 \<le> run_carousel n ops 0 \<and> run_carousel n ops 0 < n"
    using assms by (intro run_carousel_range) simp_all
  have w: "1 \<le> currentStep (run_wizard evs initialSignup) \<and>
         currentStep (run_wizard evs initialSignup) \<le> 3"
    by (rule run_wizard_range) (simp add: initialSignup_def)
  from c w show ?thesis by simp
qed

theorem cursor_bound_invariant_witness:
  "(1::int) \<le> 3 \<and> list_all (in_range_op 3) [PrevSlide, SetCurrentSlide 2, NextSlide, NextSlide] \<and>
   run_carousel 3 [PrevSlide, SetCurrentSlide 2, NextSlide, NextSlide] 0 = 1 \<and>
   0 \<le> run_carousel 3 [PrevSlide, SetCurrentSlide 2, NextSlide, NextSlide] 0 \<and>
   run_carousel 3 [PrevSlide, SetCurrentSlide 2, NextSlide, NextSlide] 0 < 3 \<and>
   1 \<le> currentStep (run_wizard [Back, Edit Name ''Jane'', Continue, Continue] initialSignup) \<and>
   currentStep (run_wizard [Back, Edit Name ''Jane'', Continue, Continue] initialSignup) \<le> 3 \<and>
   currentStep (run_wizard [Back, Edit Name ''Jane'', Continue, Continue] initialSignup) = 2"
  using cursor_bound_invariant [of 3 "[PrevSlide, SetCurrentSlide 2, NextSlide, NextSlide]"
      "[Back, Edit Name ''Jane'', Continue, Continue]"]
  by (simp add: run_carousel_def nextSlide_def prevSlide_def smod_int_alt_def
      run_wizard_def initialSignup_def advance_def retreat_def nextStep_def prevStep_def
      nameContinueDisabled_def accountContinueDisabled_def trim_def is_ws_def)

text \<open>
  Claim C5. For every slide count \<open>n \<ge> 1\<close> and every position \<open>p\<close> in \<open>[0, n - 1]\<close>,
  \<open>n\<close> applications of \<open>nextSlide\<close> return to \<open>p\<close>, and \<open>prevSlide\<close> and \<open>nextSlide\<close>
  undo each other.
\<close>

theorem carousel_cyclic_closure:
  assumes "1 \<le> n" "0 \<le> p" "p < n"
  shows "(nextSlide n ^^ nat n) p = p \<and> prevSlide n (nextSlide n p) = p
         \<and> nextSlide n (prevSlide n p) = p"
proof -
  have "(nextSlide n ^^ nat n) p = (p + int (nat n)) mod n"
    using assms by (intro nextSlide_funpow) simp_all
  also have "\<dots> = p" using assms by simp
  finally show ?thesis using assms by (simp add: prev_next next_prev)
qed

theorem carousel_cyclic_closure_witness:
  "(nextSlide 3 ^^ nat 3) 2 = 2 \<and> prevSlide 3 (nextSlide 3 2) = 2 \<and> nextSlide 3 (prevSlide 3 2) = 2
   \<and> int (length heroSlides) = 3"
  using carousel_cyclic_closure [of 3 2] by (simp add: heroSlides_def)

section \<open>Filter evaluators\<close>

lemma item_matches_label_facet: "item_matches sel i = spec_label_facet sel (tags i)"
  by (auto simp: item_matches_def spec_label_facet_def list_ex_iff)

lemma filteredItems_own:
  "m k = Some xs \<Longrightarrow> filteredItems m k sel = Inr (filter (item_matches sel) xs)"
  by (simp add: filteredItems_def get_property_def)

lemma filteredItems_unknown_key:
  "menu k = None \<Longrightarrow> k \<notin> set object_prototype_keys \<Longrightarrow> filteredItems menu k sel = Inr []"
  by (simp add: filteredItems_def get_property_def)

lemma menu_catalog_eq: "catalog_of menuCategoryIds menuItems = menu_catalog"
  by (simp add: catalog_of_def menuCategoryIds_def menuItems_def menu_catalog_def)

lemma filter_block:
  "filter (\<lambda>e. fst e = k \<and> P (snd e)) (map (Pair a) xs)
     = (if a = k then map (Pair a) (filter P xs) else [])"
  by (induction xs) auto

lemma catalog_of_Cons:
  "catalog_of (a # keys) m
      = (case m a of None \<Rightarrow> [] | Some items \<Rightarrow> map (Pair a) items) @ catalog_of keys m"
  by (simp add: catalog_of_def)

lemma select_block:
  "distinct keys \<Longrightarrow>
   map snd (filter (\<lambda>e. fst e = k \<and> P (snd e)) (catalog_of keys m))
     = (if k \<in> set keys then (case m k of None \<Rightarrow> [] | Some xs \<Rightarrow> filter P xs) else [])"
proof (induction keys)
  case Nil
  then show ?case by (simp add: catalog_of_def)
next
  case (Cons a keys)
  from Cons.prems have d: "distinct keys" and na: "a \<notin> set keys" by simp_all
  note ih = Cons.IH [OF d]
  show ?case
  proof (cases "a = k")
    case True
    with na have "k \<notin> set keys" by simp
    with ih True show ?thesis
      by (simp add: catalog_of_Cons filter_block comp_def split: option.split)
  next
    case False
    with ih show ?thesis
      by (simp add: catalog_of_Cons filter_block split: option.split)
  qed
qed

lemma spec_menu_evaluator_key:
  assumes "distinct keys" "k \<noteq> ''all''"
  shows "spec_menu_evaluator k sel (catalog_of keys m)
     = (if k \<in> set keys then (case m k of None \<Rightarrow> [] | Some xs \<Rightarrow> filter (item_matches sel) xs) else [])"
proof -
  have "spec_menu_evaluator k sel (catalog_of keys m)
      = map snd (filter (\<lambda>e. fst e = k \<and> item_matches sel (snd e)) (catalog_of keys m))"
    using assms(2) by (simp add: spec_menu_evaluator_def spec_category_facet_def item_matches_label_facet)
  then show ?thesis using select_block [OF assms(1)] by simp
qed

lemma filteredItems_refines_spec:
  assumes "distinct keys" "k \<in> dom m \<longrightarrow> k \<in> set keys" "k \<noteq> ''all''"
    "k \<in> dom m \<or> k \<notin> set object_prototype_keys"
  shows "filteredItems m k sel = Inr (spec_menu_evaluator k sel (catalog_of keys m))"
proof (cases "m k")
  case None
  then have "k \<notin> set object_prototype_keys" using assms(4) by auto
  with None show ?thesis
    using assms by (simp add: spec_menu_evaluator_key filteredItems_unknown_key)
next
  case (Some xs)
  then have "k \<in> set keys" using assms(2) by auto
  with Some show ?thesis
    using assms by (simp add: spec_menu_evaluator_key filteredItems_own)
qed

lemma menu_step_category:
  "activeCategory s \<in> set menuCategoryIds \<Longrightarrow> activeCategory (menu_step e s) \<in> set menuCategoryIds"
  by (cases e) simp_all

lemma run_menu_category:
  "activeCategory s \<in> set menuCategoryIds \<Longrightarrow> activeCategory (run_menu evs s) \<in> set menuCategoryIds"
  unfolding run_menu_def
  by (induction evs arbitrary: s) (simp_all add: menu_step_category)

lemma reachable_category:
  "activeCategory (run_menu evs initialMenu) \<in> set menuCategoryIds"
  by (rule run_menu_category) (simp add: initialMenu_def menuCategoryIds_def)

lemma menu_keys_own: "k \<in> set menuCategoryIds \<Longrightarrow> k \<in> dom menuItems \<and> k \<noteq> ''all''"
  by (auto simp: menuCategoryIds_def menuItems_def)

lemma category_ids_refine:
  assumes "k \<in> set menuCategoryIds"
  shows "filteredItems menuItems k sel = Inr (spec_menu_evaluator k sel menu_catalog)"
proof -
  have "filteredItems menuItems k sel
      = Inr (spec_menu_evaluator k sel (catalog_of menuCategoryIds menuItems))"
    using assms menu_keys_own [OF assms]
    by (intro filteredItems_refines_spec) (simp_all add: menuCategoryIds_def)
  then show ?thesis by (simp add: menu_catalog_eq)
qed

lemma reachable_refines:
  "visibleItems (run_menu evs initialMenu)
     = Inr (spec_menu_evaluator (activeCategory (run_menu evs initialMenu))
              (selectedFilters (run_menu evs initialMenu)) menu_catalog)"
  unfolding visibleItems_def by (rule category_ids_refine) (rule reachable_category)

lemma subseq_spec_menu_evaluator: "subseq (spec_menu_evaluator k sel c) (map snd c)"
  unfolding spec_menu_evaluator_def by (intro subseq_map) simp

text \<open>
  Claim C1. The product evaluator returns, for every catalog, category and price range,
  exactly the catalog items that pass the category facet (\<^verbatim>\<open>selectedCategory\<close> is
  \<^verbatim>\<open>"all"\<close> or equals the item's category) and the range facet (\<open>min \<le> price \<le> max\<close>),
  in the catalog's order. The menu evaluator, in every state the menu component reaches,
  returns exactly the items of the menu catalog that pass the category facet and the
  label facet, as the specification's evaluator computes them, in the catalog's order.
  The same holds for any keyed menu and any category other than the \<^verbatim>\<open>"all"\<close> sentinel
  that is a key of the menu or a name found nowhere on the object; the menu component
  never holds \<^verbatim>\<open>"all"\<close>. Each result is a subsequence of its catalog.
\<close>

theorem filter_evaluator_stable_conjunction:
  "filteredProducts ps cat r =
      filter (\<lambda>p. spec_category_facet cat (category p) \<and> spec_range_facet r (price p)) ps
   \<and> subseq (filteredProducts ps cat r) ps
   \<and> visibleItems (run_menu evs initialMenu)
       = Inr (spec_menu_evaluator (activeCategory (run_menu evs initialMenu))
                (selectedFilters (run_menu evs initialMenu)) menu_catalog)
   \<and> (distinct keys \<and> (k \<in> dom m \<longrightarrow> k \<in> set keys) \<and> k \<noteq> ''all''
        \<and> (k \<in> dom m \<or> k \<notin> set object_prototype_keys) \<longrightarrow>
        filteredItems m k sel = Inr (spec_menu_evaluator k sel (catalog_of keys m)))
   \<and> (m k = Some xs \<longrightarrow>
        filteredItems m k sel = Inr (filter (\<lambda>i. spec_label_facet sel (tags i)) xs)
        \<and> subseq (filter (\<lambda>i. spec_label_facet sel (tags i)) xs) xs)
   \<and> subseq (spec_menu_evaluator k sel c) (map snd c)"
proof -
  have a: "filteredProducts ps cat r =
      filter (\<lambda>p. spec_category_facet cat (category p) \<and> spec_range_facet r (price p)) ps"
    by (simp add: filteredProducts_def spec_category_facet_def spec_range_facet_def)
  have b: "subseq (filteredProducts ps cat r) ps"
    by (simp add: filteredProducts_def)
  have c: "m k = Some xs \<longrightarrow>
        filteredItems m k sel = Inr (filter (\<lambda>i. spec_label_facet sel (tags i)) xs)
        \<and> subseq (filter (\<lambda>i. spec_label_facet sel (tags i)) xs) xs"
    by (simp add: filteredItems_own item_matches_label_facet [abs_def])
  have d: "distinct keys \<and> (k \<in> dom m \<longrightarrow> k \<in> set keys) \<and> k \<noteq> ''all''
        \<and> (k \<in> dom m \<or> k \<notin> set object_prototype_keys) \<longrightarrow>
        filteredItems m k sel = Inr (spec_menu_evaluator k sel (catalog_of keys m))"
    using filteredItems_refines_spec [of keys k m sel] by blast
  note e = reachable_refines [of evs] and f = subseq_spec_menu_evaluator [of k sel c]
  from a b c d e f show ?thesis by blast
qed

theorem filter_evaluator_stable_conjunction_witness:
  "distinct menuCategoryIds \<and> ''mains'' \<in> dom menuItems \<and> ''mains'' \<in> set menuCategoryIds
   \<and> ''mains'' \<noteq> ''all''
   \<and> filteredItems menuItems ''mains'' [''popular'']
        = Inr (spec_menu_evaluator ''mains'' [''popular''] (catalog_of menuCategoryIds menuItems))
   \<and> menuItems ''mains'' = Some mains
   \<and> filteredItems menuItems ''mains'' [''popular''] = Inr (take 2 mains)"
proof -
  note t = filter_evaluator_stable_conjunction
    [of products "''clothing''" "(0, 500)" "[SetActiveCategory ''mains'', ToggleFilter ''popular'']"
        menuCategoryIds "''mains''" menuItems "[''popular'']" mains menu_catalog]
  have h1: "distinct menuCategoryIds" by (simp add: menuCategoryIds_def)
  have h2: "''mains'' \<in> dom menuItems" by (simp add: menuItems_def)
  have h3: "''mains'' \<in> set menuCategoryIds" by (simp add: menuCategoryIds_def)
  have h4: "''mains'' \<noteq> ''all''" by simp
  have h5: "menuItems ''mains'' = Some mains" by (simp add: menuItems_def)
  from t h1 h2 h3 h4 have r1: "filteredItems menuItems ''mains'' [''popular'']
        = Inr (spec_menu_evaluator ''mains'' [''popular''] (catalog_of menuCategoryIds menuItems))"
    by blast
  from t h5 have r2: "filteredItems menuItems ''mains'' [''popular'']
        = Inr (filter (\<lambda>i. spec_label_facet [''popular''] (tags i)) mains)"
    by blast
  have r3: "filter (\<lambda>i. spec_label_facet [''popular''] (tags i)) mains = take 2 mains"
    by (simp add: mains_def spec_label_facet_def)
  from h1 h2 h3 h4 h5 r1 r2 r3 show ?thesis by simp
qed

text \<open>
  Claim C2. For a key \<open>k\<close> of the menu object with items \<open>xs\<close>, the evaluator returns a
  result \<open>r\<close>. With no label selected the label facet excludes nothing (\<open>r = xs\<close>). With
  labels selected, an item is in \<open>r\<close> exactly if it is one of \<open>xs\<close> and its tags share at
  least one label with the selection (ANY-match). Nothing outside \<open>xs\<close> appears, nothing
  passing is left out, and the order is that of \<open>xs\<close>.
\<close>

theorem label_facet_any_match:
  assumes "m k = Some xs"
  shows "\<exists>r. filteredItems m k sel = Inr r
           \<and> (sel = [] \<longrightarrow> r = xs)
           \<and> (sel \<noteq> [] \<longrightarrow> (\<forall>i. i \<in> set r \<longleftrightarrow> i \<in> set xs \<and> set (tags i) \<inter> set sel \<noteq> {}))
           \<and> set r \<subseteq> set xs \<and> subseq r xs"
proof -
  let ?r = "filter (item_matches sel) xs"
  have 1: "filteredItems m k sel = Inr ?r" using assms by (rule filteredItems_own)
  have 2: "sel = [] \<longrightarrow> ?r = xs" by (simp add: item_matches_def)
  have 3: "sel \<noteq> [] \<longrightarrow> (\<forall>i. i \<in> set ?r \<longleftrightarrow> i \<in> set xs \<and> set (tags i) \<inter> set sel \<noteq> {})"
    by (auto simp: item_matches_def list_ex_iff)
  have 4: "set ?r \<subseteq> set xs \<and> subseq ?r xs" by simp
  from 1 2 3 4 show ?thesis by blast
qed

theorem label_facet_any_match_witness:
  "menuItems ''appetizers'' = Some appetizers
   \<and> filteredItems menuItems ''appetizers'' [''vegetarian'', ''spicy''] = Inr [appetizers ! 0, appetizers ! 2]
   \<and> filteredItems menuItems ''appetizers'' [] = Inr appetizers
   \<and> (\<exists>r. filteredItems menuItems ''appetizers'' [''vegetarian'', ''spicy''] = Inr r
           \<and> set r \<subseteq> set appetizers)"
  using label_facet_any_match [of menuItems "''appetizers''" appetizers "[''vegetarian'', ''spicy'']"]
  by (simp add: menuItems_def filteredItems_def get_property_def item_matches_def appetizers_def)

text \<open>
  Claim C9, as amended. With \<^verbatim>\<open>selectedCategory = "all"\<close> the product evaluator returns
  the whole catalog, order preserved, provided every catalog price lies in the price
  range; the range facet stays active under \<^verbatim>\<open>"all"\<close>. The initial range \<open>(0, 500)\<close>
  contains every price of the sample catalog.
\<close>

theorem all_category_identity:
  assumes "\<forall>p \<in> set ps. fst r \<le> price p \<and> price p \<le> snd r"
  shows "filteredProducts ps ''all'' r = ps"
  using assms by (simp add: filteredProducts_def filter_id_conv)

theorem all_category_identity_witness:
  "filteredProducts products ''all'' initialPriceRange = products \<and> length products = 6"
proof -
  have h: "\<forall>p \<in> set products. fst initialPriceRange \<le> price p \<and> price p \<le> snd initialPriceRange"
    by (simp add: products_def initialPriceRange_def)
  from all_category_identity [OF h] show ?thesis by (simp add: products_def)
qed

text \<open>
  The claim as stated fails once the slider lowers the upper bound: at \<open>(0, 100)\<close> the
  products priced 120 and 299 are dropped although the category is \<^verbatim>\<open>"all"\<close>.
\<close>

theorem all_category_price_counterexample:
  "filteredProducts products ''all'' (0, 100) \<noteq> products
   \<and> map pid (filteredProducts products ''all'' (0, 100)) = [1, 3, 4, 5]"
  by (simp add: filteredProducts_def products_def)

lemma filteredProducts_badge_independent:
  "filteredProducts (map (\<lambda>p. p\<lparr>badge := b p\<rparr>) ps) cat r
     = map (\<lambda>p. p\<lparr>badge := b p\<rparr>) (filteredProducts ps cat r)"
  by (simp add: filteredProducts_def filter_map comp_def)

lemma no_range_selects_sale_items:
  "filteredProducts products ''all'' r \<noteq> saleBadged products"
proof (cases "fst r \<le> 45 \<and> 89 \<le> snd r")
  case True
  then show ?thesis
    by (simp add: filteredProducts_def products_def saleBadged_def)
next
  case False
  then show ?thesis
    by (auto simp: filteredProducts_def products_def saleBadged_def)
qed

text \<open>
  Claim C8, as amended. The product listing has no label facet: its state is the category
  and the price range only, and the badge is display data. For every catalog, category
  and price range, rewriting the badges of the catalog in any way changes the result
  only by the same rewriting, so the evaluator never reads a badge. No price range at
  \<^verbatim>\<open>"all"\<close> yields exactly the sale-badged products. With \<^verbatim>\<open>"all"\<close> and the initial price
  range the evaluator returns all six sample products in order. Exactly two of the six
  (ids 1 and 5) carry the badge \<^verbatim>\<open>'Sale'\<close>.
\<close>

theorem product_listing_has_no_label_facet:
  "filteredProducts (map (\<lambda>p. p\<lparr>badge := b p\<rparr>) ps) cat r
     = map (\<lambda>p. p\<lparr>badge := b p\<rparr>) (filteredProducts ps cat r)
   \<and> filteredProducts products ''all'' r' \<noteq> saleBadged products
   \<and> filteredProducts products ''all'' initialPriceRange = products
   \<and> length products = 6
   \<and> map pid (saleBadged products) = [1, 5]
   \<and> length (saleBadged products) = 2"
proof -
  have c: "filteredProducts products ''all'' initialPriceRange = products
   \<and> length products = 6
   \<and> map pid (saleBadged products) = [1, 5]
   \<and> length (saleBadged products) = 2"
    by (simp add: filteredProducts_def products_def initialPriceRange_def saleBadged_def)
  from filteredProducts_badge_independent [of b ps cat r] no_range_selects_sale_items [of r'] c
  show ?thesis by simp
qed

text \<open>
  The claim as stated fails: the evaluator's result at \<^verbatim>\<open>"all"\<close> has six items, not the
  two sale items.
\<close>

theorem sale_label_counterexample:
  "length (filteredProducts products ''all'' initialPriceRange) = 6
   \<and> filteredProducts products ''all'' initialPriceRange \<noteq> saleBadged products"
  by (simp add: filteredProducts_def products_def initialPriceRange_def saleBadged_def)





section \<open>Label toggle\<close>

lemma item_matches_set_cong:
  "set a = set b \<Longrightarrow> item_matches a i = item_matches b i"
proof -
  assume h: "set a = set b"
  then have "(a = []) = (b = [])" by (metis set_empty)
  with h show ?thesis by (simp add: item_matches_def list_ex_iff)
qed

lemma filteredItems_set_cong:
  assumes "set a = set b"
  shows "filteredItems m k a = filteredItems m k b"
proof -
  have "item_matches a = item_matches b"
    using assms by (intro ext item_matches_set_cong)
  then show ?thesis by (simp add: filteredItems_def split: js_lookup.split)
qed

lemma filter_neq_absent: "l \<notin> set xs \<Longrightarrow> filter (\<lambda>f. f \<noteq> l) xs = xs"
  by (induction xs) auto

lemma set_toggleFilter_twice: "set (toggleFilter l (toggleFilter l sel)) = set sel"
  by (auto simp: toggleFilter_def)

lemma toggleFilter_on_off: "l \<notin> set sel \<Longrightarrow> toggleFilter l (toggleFilter l sel) = sel"
  by (simp add: toggleFilter_def filter_neq_absent)

text \<open>
  Claim C7. Toggling a label twice returns the selected label set to what it was, and so
  the menu evaluator's result on any menu and category; when the label was not selected
  before, the list itself is restored. Toggling a selected label removes it (the list gets
  shorter and no longer holds it) rather than adding a duplicate, and a selection without
  duplicates stays so. The same holds for the wizard's interest toggle. After removing and
  re-adding, the label sits at the end of the list: the order may differ, the set does not.
\<close>

theorem toggle_round_trip:
  "set (toggleFilter l (toggleFilter l sel)) = set sel
   \<and> filteredItems m k (toggleFilter l (toggleFilter l sel)) = filteredItems m k sel
   \<and> (l \<notin> set sel \<longrightarrow> toggleFilter l (toggleFilter l sel) = sel)
   \<and> (l \<in> set sel \<longrightarrow> l \<notin> set (toggleFilter l sel)
                         \<and> set (toggleFilter l sel) = set sel - {l}
                         \<and> length (toggleFilter l sel) < length sel)
   \<and> (distinct sel \<longrightarrow> distinct (toggleFilter l sel))
   \<and> set (interests (formData (toggleInterest l (toggleInterest l s))))
        = set (interests (formData s))
   \<and> (l \<notin> set (interests (formData s)) \<longrightarrow> toggleInterest l (toggleInterest l s) = s)
   \<and> (l \<in> set (interests (formData s)) \<longrightarrow>
         l \<notin> set (interests (formData (toggleInterest l s))))"
proof -
  have 1: "set (toggleFilter l (toggleFilter l sel)) = set sel"
    by (rule set_toggleFilter_twice)
  have 2: "filteredItems m k (toggleFilter l (toggleFilter l sel)) = filteredItems m k sel"
    by (rule filteredItems_set_cong) (rule set_toggleFilter_twice)
  have 3: "l \<notin> set sel \<longrightarrow> toggleFilter l (toggleFilter l sel) = sel"
    by (simp add: toggleFilter_on_off)
  have 4: "l \<in> set sel \<longrightarrow> l \<notin> set (toggleFilter l sel)
                         \<and> set (toggleFilter l sel) = set sel - {l}
                         \<and> length (toggleFilter l sel) < length sel"
    by (auto simp: toggleFilter_def length_filter_less)
  have 8: "distinct sel \<longrightarrow> distinct (toggleFilter l sel)"
    by (simp add: toggleFilter_def)
  have 5: "set (interests (formData (toggleInterest l (toggleInterest l s))))
        = set (interests (formData s))"
    by (auto simp: toggleInterest_def)
  have 6: "l \<notin> set (interests (formData s)) \<longrightarrow> toggleInterest l (toggleInterest l s) = s"
    by (simp add: toggleInterest_def filter_neq_absent)
  have 7: "l \<in> set (interests (formData s)) \<longrightarrow>
         l \<notin> set (interests (formData (toggleInterest l s)))"
    by (simp add: toggleInterest_def)
  from 1 2 3 4 5 6 7 8 show ?thesis by blast
qed

theorem toggle_round_trip_witness:
  "''spicy'' \<notin> set [''popular'']
   \<and> toggleFilter ''spicy'' [''popular''] = [''popular'', ''spicy'']
   \<and> toggleFilter ''spicy'' (toggleFilter ''spicy'' [''popular'']) = [''popular'']
   \<and> ''popular'' \<in> set [''popular'', ''spicy'']
   \<and> toggleFilter ''popular'' [''popular'', ''spicy''] = [''spicy'']
   \<and> toggleFilter ''popular'' (toggleFilter ''popular'' [''popular'', ''spicy''])
        = [''spicy'', ''popular'']
   \<and> ''Music'' \<notin> set (interests (formData initialSignup))
   \<and> toggleInterest ''Music'' (toggleInterest ''Music'' initialSignup) = initialSignup
   \<and> ''Music'' \<in> set (interests (formData (toggleInterest ''Music'' initialSignup)))"
  using toggle_round_trip [of "''spicy''" "[''popular'']" menuItems "''mains''" initialSignup]
    toggle_round_trip [of "''popular''" "[''popular'', ''spicy'']" menuItems "''mains''" initialSignup]
    toggle_round_trip [of "''Music''" "[]" menuItems "''mains''" initialSignup]
    toggle_round_trip [of "''Music''" "[]" menuItems "''mains''" "toggleInterest ''Music'' initialSignup"]
  by (simp add: toggleFilter_def toggleInterest_def initialSignup_def)

section \<open>Wizard validation and rejection\<close>

lemma advance_account:
  "currentStep s = 2 \<Longrightarrow>
     advance s = (if email (formData s) \<noteq> [] \<and> 6 \<le> length (password (formData s))
                  then s\<lparr>currentStep := 3\<rparr> else s)"
  by (auto simp: advance_def accountContinueDisabled_def nextStep_def)

text \<open>
  Claim C3, as amended. At the account step (step 2), \<open>advance\<close> moves to step 3 if and
  only if the email field is non-empty and the password has at least 6 characters;
  otherwise it leaves the state as it is. The \<^verbatim>\<open>"@"\<close> test only drives the inline hint.
  With email \<^verbatim>\<open>jane@example.com\<close>, a password of length 4 is rejected and one of length 6
  advances.
\<close>

theorem account_step_gate:
  assumes "currentStep s = 2"
  shows "(advance s = s\<lparr>currentStep := 3\<rparr> \<longleftrightarrow>
            email (formData s) \<noteq> [] \<and> 6 \<le> length (password (formData s)))
         \<and> (\<not> (email (formData s) \<noteq> [] \<and> 6 \<le> length (password (formData s)))
              \<longrightarrow> advance s = s)"
proof -
  have ne: "s\<lparr>currentStep := 3\<rparr> \<noteq> s"
  proof
    assume "s\<lparr>currentStep := 3\<rparr> = s"
    then have "currentStep (s\<lparr>currentStep := 3\<rparr>) = currentStep s" by simp
    with assms show False by simp
  qed
  show ?thesis
  proof (cases "email (formData s) \<noteq> [] \<and> 6 \<le> length (password (formData s))")
    case True
    then show ?thesis using assms by (simp add: advance_account)
  next
    case False
    then have "advance s = s" using assms by (simp add: advance_account)
    with False ne show ?thesis by auto
  qed
qed

theorem account_step_gate_witness:
  "currentStep (janeAccount ''jane@example.com'' ''abcd'') = 2
   \<and> length ''abcd'' = 4
   \<and> advance (janeAccount ''jane@example.com'' ''abcd'') = janeAccount ''jane@example.com'' ''abcd''
   \<and> currentStep (janeAccount ''jane@example.com'' ''abcdef'') = 2
   \<and> length ''abcdef'' = 6
   \<and> advance (janeAccount ''jane@example.com'' ''abcdef'')
        = (janeAccount ''jane@example.com'' ''abcdef'')\<lparr>currentStep := 3\<rparr>"
  using account_step_gate [of "janeAccount ''jane@example.com'' ''abcd''"]
    account_step_gate [of "janeAccount ''jane@example.com'' ''abcdef''"]
  by (simp add: janeAccount_def)

text \<open>
  The claim as stated fails: an email without \<^verbatim>\<open>"@"\<close> and a six-character password
  advance to step 3.
\<close>

theorem account_step_no_at_counterexample:
  "currentStep (janeAccount ''jane'' ''abcdef'') = 2
   \<and> CHR ''@'' \<notin> set (email (formData (janeAccount ''jane'' ''abcdef'')))
   \<and> \<not> validEmailHint (formData (janeAccount ''jane'' ''abcdef''))
   \<and> currentStep (advance (janeAccount ''jane'' ''abcdef'')) = 3"
  by (simp add: janeAccount_def advance_def accountContinueDisabled_def nextStep_def
      validEmailHint_def)

lemma advance_name:
  "currentStep s = 1 \<Longrightarrow>
     advance s = (if trim (name (formData s)) = [] then s else s\<lparr>currentStep := 2\<rparr>)"
  by (simp add: advance_def nameContinueDisabled_def nextStep_def)

lemma step_update_neq: "currentStep s \<noteq> n \<Longrightarrow> s\<lparr>currentStep := n\<rparr> \<noteq> s"
proof
  assume a: "currentStep s \<noteq> n" and "s\<lparr>currentStep := n\<rparr> = s"
  then have "currentStep (s\<lparr>currentStep := n\<rparr>) = currentStep s" by simp
  with a show False by simp
qed

text \<open>
  Claim C6, as amended. \<open>nextStep\<close> and \<open>advance\<close> at the final step (3) leave the state
  unchanged. At the name step \<open>advance\<close> is a no-op exactly when the specification's
  validation fails (the trimmed name is empty). At the account step \<open>advance\<close> is a no-op
  exactly when the email field is empty or the password has fewer than 6 characters; a
  non-empty email without \<^verbatim>\<open>"@"\<close> is not rejected. At every step other than the account
  step, failed validation makes \<open>advance\<close> a no-op. \<open>prevStep\<close> and \<open>retreat\<close> at the
  first step leave the state unchanged. In each rejected case the whole state is the
  same, not only the step.
\<close>

theorem wizard_rejections_are_noops:
  "(3 \<le> currentStep s \<longrightarrow> nextStep s = s \<and> advance s = s)
   \<and> (currentStep s = 1 \<longrightarrow> (advance s = s \<longleftrightarrow> \<not> spec_step_valid 1 (formData s)))
   \<and> (currentStep s = 2 \<longrightarrow>
        (advance s = s \<longleftrightarrow> email (formData s) = [] \<or> length (password (formData s)) < 6))
   \<and> (currentStep s \<noteq> 2 \<and> \<not> spec_step_valid (currentStep s) (formData s) \<longrightarrow> advance s = s)
   \<and> (currentStep s \<le> 1 \<longrightarrow> prevStep s = s \<and> retreat s = s)"
proof -
  have 1: "3 \<le> currentStep s \<longrightarrow> nextStep s = s \<and> advance s = s"
    by (simp add: nextStep_def advance_def)
  have 2: "currentStep s = 1 \<longrightarrow> (advance s = s \<longleftrightarrow> \<not> spec_step_valid 1 (formData s))"
    using step_update_neq [of s 2] by (auto simp: advance_name spec_step_valid_def)
  have 3: "currentStep s = 2 \<longrightarrow>
        (advance s = s \<longleftrightarrow> email (formData s) = [] \<or> length (password (formData s)) < 6)"
    using step_update_neq [of s 3] by (auto simp: advance_account)
  have 4: "currentStep s \<noteq> 2 \<and> \<not> spec_step_valid (currentStep s) (formData s) \<longrightarrow> advance s = s"
    by (auto simp: advance_def spec_step_valid_def nameContinueDisabled_def split: if_splits)
  have 5: "currentStep s \<le> 1 \<longrightarrow> prevStep s = s \<and> retreat s = s"
    by (simp add: prevStep_def retreat_def)
  from 1 2 3 4 5 show ?thesis by blast
qed

theorem wizard_rejections_are_noops_witness:
  "currentStep initialSignup = 1 \<and> \<not> spec_step_valid 1 (formData initialSignup)
   \<and> advance initialSignup = initialSignup
   \<and> retreat initialSignup = initialSignup
   \<and> currentStep (janeAccount ''jane@example.com'' ''abcd'') = 2
   \<and> advance (janeAccount ''jane@example.com'' ''abcd'') = janeAccount ''jane@example.com'' ''abcd''
   \<and> 3 \<le> currentStep ((janeAccount ''jane@example.com'' ''abcdef'')\<lparr>currentStep := 3\<rparr>)
   \<and> nextStep ((janeAccount ''jane@example.com'' ''abcdef'')\<lparr>currentStep := 3\<rparr>)
        = (janeAccount ''jane@example.com'' ''abcdef'')\<lparr>currentStep := 3\<rparr>"
  using wizard_rejections_are_noops [of initialSignup]
    wizard_rejections_are_noops [of "janeAccount ''jane@example.com'' ''abcd''"]
    wizard_rejections_are_noops [of "(janeAccount ''jane@example.com'' ''abcdef'')\<lparr>currentStep := 3\<rparr>"]
  by (simp add: initialSignup_def janeAccount_def spec_step_valid_def trim_def)

text \<open>
  The claim as stated fails at the account step: with a non-empty email that has no
  \<^verbatim>\<open>"@"\<close> and a six-character password the specification's validation fails, and
  \<open>advance\<close> still moves to step 3.
\<close>

theorem wizard_validation_counterexample:
  "currentStep (janeAccount ''jane.example.com'' ''secret'') = 2
   \<and> \<not> spec_step_valid 2 (formData (janeAccount ''jane.example.com'' ''secret''))
   \<and> advance (janeAccount ''jane.example.com'' ''secret'')
        \<noteq> janeAccount ''jane.example.com'' ''secret''
   \<and> currentStep (advance (janeAccount ''jane.example.com'' ''secret'')) = 3"
  by (simp add: janeAccount_def spec_step_valid_def advance_def accountContinueDisabled_def
      nextStep_def)

end
